theory Spec2Isabelle
  imports Complex_Main "HOL-Library.Sublist"
begin

section \<open>The climate dashboard script \<^verbatim>\<open>tem.py\<close>\<close>

text \<open>
  The script is one top-to-bottom pass: it reads an uploaded CSV file into a pandas
  DataFrame, normalises the column names, reads two filter selections from the sidebar,
  filters the frame, and writes four page sections. The model keeps that order. A run
  yields the page elements written so far and the exception that stopped it, if any.

  Conventions of the model:
  \<^item> a float64 value is a finite number (given as the rational it denotes), an
    infinity or \<open>NaN\<close>; comparing it with a constant is exact, and false for \<open>NaN\<close>;
  \<^item> no float64 arithmetic is modelled: the only arithmetic of the script is pandas'
    \<^verbatim>\<open>Series.mean\<close>, which belongs to a library outside the repository and is a
    parameter \<open>series_mean\<close> of the model, any function from a series to a value;
  \<^item> a row carries the four columns the script reads by name, with the types the
    script expects (text, integer, float, float; a blank float cell is \<open>NaN\<close>); which of
    these columns the frame really has is decided by the frame's list of column names,
    and a field of an absent column is never read because the column access raises first;
  \<^item> column names are ASCII strings, and a frame's column names are meant pairwise
    distinct: with a repeated label \<^verbatim>\<open>df[name]\<close> is a frame, not a series, which
    \<open>getitem\<close> does not express, so the statement about uploads that lack a
    column carries the distinctness as a hypothesis;
  \<^item> the values picked in the sidebar widgets are an input of the run; the page
    elements recorded are the headers, texts, warnings and charts;
  \<^item> the two prediction lines are recorded with the full-precision mean they format;
  \<^item> the plotting library is an external collaborator: a figure is the bundle of
    arguments handed to it, and its calls are taken to succeed.
\<close>

subsection \<open>Data model\<close>

datatype py_error = KeyError string

datatype fval = Val rat | PosInf | NegInf | NaN

record row =
  country :: string
  year :: int
  temperature_anomaly :: fval
  average_co2 :: fval

record dataframe =
  columns :: "string list"
  rows :: "row list"

datatype plot_kind = Scatter_Plot | Line_Chart | Bar_Chart | Pie_Chart | Histogram

text \<open>The values returned by the sidebar widgets in one run of the script.\<close>

record selection =
  selected_country :: "string option"
  selected_year :: "int option"
  plot_type :: plot_kind
  x_axis :: string
  y_axis :: string
  color :: "string option"
  pie_values :: string

datatype px_function = Px_scatter | Px_line | Px_bar | Px_pie | Px_histogram

record chart_spec =
  px :: px_function
  x_arg :: "string option"
  y_arg :: "string option"
  color_arg :: "string option"
  names_arg :: "string option"
  values_arg :: "string option"
  title_arg :: string
  nbins_arg :: "nat option"

datatype figure =
    Dual_axis "int list" "fval list" "int list" "fval list"
  | Choropleth "(row \<times> string) list" bool
  | Express chart_spec

datatype event =
    Sidebar_header string
  | Header string
  | Subheader string
  | Write string
  | Write_predicted_temp fval
  | Write_predicted_co2 fval
  | Warning string
  | Info string
  | Plotly_chart figure

type_synonym outcome = "event list \<times> py_error option"

definition emit :: "event list \<Rightarrow> outcome" where
  "emit es = (es, None)"

definition raise_error :: "py_error \<Rightarrow> outcome" where
  "raise_error e = ([], Some e)"

text \<open>Statement sequencing: what follows an exception is not run.\<close>

definition seq :: "outcome \<Rightarrow> outcome \<Rightarrow> outcome" where
  "seq a b = (case snd a of Some e \<Rightarrow> a | None \<Rightarrow> (fst a @ fst b, snd b))"

subsection \<open>Column-name normalisation (line 45)\<close>

text \<open>
  \<^verbatim>\<open>df.columns = df.columns.str.strip().str.replace(" ", "_").str.lower()\<close>

  \<open>isspace\<close> lists the ASCII characters Python's \<^verbatim>\<open>str.strip()\<close> removes:
  tab, line feed, vertical tab, form feed, carriage return, the four separators
  0x1C..0x1F and the space.
\<close>

definition isspace :: "char \<Rightarrow> bool" where
  "isspace c = ((9 \<le> (of_char c :: nat) \<and> (of_char c :: nat) \<le> 13)
              \<or> (28 \<le> (of_char c :: nat) \<and> (of_char c :: nat) \<le> 32))"

definition strip :: "string \<Rightarrow> string" where
  "strip s = rev (dropWhile isspace (rev (dropWhile isspace s)))"

definition replace_space :: "string \<Rightarrow> string" where
  "replace_space s = map (\<lambda>c. if c = CHR '' '' then CHR ''_'' else c) s"

definition lower_char :: "char \<Rightarrow> char" where
  "lower_char c =
     (if 65 \<le> (of_char c :: nat) \<and> (of_char c :: nat) \<le> 90
      then char_of ((of_char c :: nat) + 32) else c)"

definition lower :: "string \<Rightarrow> string" where
  "lower s = map lower_char s"

definition normalize_name :: "string \<Rightarrow> string" where
  "normalize_name s = lower (replace_space (strip s))"

definition normalize_columns :: "string list \<Rightarrow> string list" where
  "normalize_columns names = map normalize_name names"

subsection \<open>Column access, masks and truthiness\<close>

text \<open>
  \<^verbatim>\<open>df[name]\<close> in a frame with pairwise distinct labels: the column as a series,
  or \<^verbatim>\<open>KeyError\<close> for a label the frame does not have.
\<close>

definition getitem :: "dataframe \<Rightarrow> string \<Rightarrow> (row \<Rightarrow> 'a) \<Rightarrow> py_error + 'a list" where
  "getitem df name field =
     (if name \<in> set (columns df) then Inr (map field (rows df)) else Inl (KeyError name))"

text \<open>\<^verbatim>\<open>series == value\<close>, elementwise.\<close>

definition eq_mask :: "'a list \<Rightarrow> 'a \<Rightarrow> bool list" where
  "eq_mask series v = map (\<lambda>x. x = v) series"

text \<open>\<^verbatim>\<open>df[mask]\<close>: the rows at the positions where the mask holds, in order.\<close>

definition bool_index :: "dataframe \<Rightarrow> bool list \<Rightarrow> dataframe" where
  "bool_index df msk = df\<lparr>rows := map fst (filter snd (zip (rows df) msk))\<rparr>"

text \<open>\<^verbatim>\<open>df.empty\<close>: some axis has length zero.\<close>

definition empty_frame :: "dataframe \<Rightarrow> bool" where
  "empty_frame df = (rows df = [] \<or> columns df = [])"

text \<open>Python truth value of a selectbox result: \<^verbatim>\<open>None\<close>, \<^verbatim>\<open>0\<close> and \<^verbatim>\<open>''\<close> are false.\<close>

fun truthy_str :: "string option \<Rightarrow> bool" where
  "truthy_str None = False"
| "truthy_str (Some s) = (s \<noteq> [])"

fun truthy_int :: "int option \<Rightarrow> bool" where
  "truthy_int None = False"
| "truthy_int (Some n) = (n \<noteq> 0)"

subsection \<open>Filter engine (lines 56-60)\<close>

definition filter_country :: "dataframe \<Rightarrow> string option \<Rightarrow> py_error + dataframe" where
  "filter_country filtered_df sel_country =
     (if truthy_str sel_country then
        (case getitem filtered_df ''country'' country of
           Inl e \<Rightarrow> Inl e
         | Inr s \<Rightarrow> Inr (bool_index filtered_df (eq_mask s (the sel_country))))
      else Inr filtered_df)"

definition filter_year :: "dataframe \<Rightarrow> int option \<Rightarrow> py_error + dataframe" where
  "filter_year filtered_df sel_year =
     (if truthy_int sel_year then
        (case getitem filtered_df ''year'' year of
           Inl e \<Rightarrow> Inl e
         | Inr s \<Rightarrow> Inr (bool_index filtered_df (eq_mask s (the sel_year))))
      else Inr filtered_df)"

definition apply_filters :: "dataframe \<Rightarrow> string option \<Rightarrow> int option \<Rightarrow> py_error + dataframe" where
  "apply_filters df sel_country sel_year =
     (case filter_country df sel_country of
        Inl e \<Rightarrow> Inl e
      | Inr filtered_df \<Rightarrow> filter_year filtered_df sel_year)"

subsection \<open>Recommendation engine (lines 63-81)\<close>

text \<open>The comparisons of lines 74 and 76 between a float64 value and a constant.\<close>

fun gt :: "fval \<Rightarrow> rat \<Rightarrow> bool" where
  "gt (Val a) b = (a > b)"
| "gt PosInf b = True"
| "gt NegInf b = False"
| "gt NaN b = False"

fun le :: "fval \<Rightarrow> rat \<Rightarrow> bool" where
  "le (Val a) b = (a \<le> b)"
| "le PosInf b = False"
| "le NegInf b = True"
| "le NaN b = False"

text \<open>
  Lines 65 and 66: the column of the filtered frame, handed to \<^verbatim>\<open>Series.mean\<close>.
\<close>

definition predicted_temp :: "(fval list \<Rightarrow> fval) \<Rightarrow> dataframe \<Rightarrow> py_error + fval" where
  "predicted_temp series_mean filtered_df =
     (case getitem filtered_df ''temperature_anomaly'' temperature_anomaly of
        Inl e \<Rightarrow> Inl e | Inr s \<Rightarrow> Inr (series_mean s))"

definition predicted_co2 :: "(fval list \<Rightarrow> fval) \<Rightarrow> dataframe \<Rightarrow> py_error + fval" where
  "predicted_co2 series_mean filtered_df =
     (case getitem filtered_df ''average_co2'' average_co2 of
        Inl e \<Rightarrow> Inl e | Inr s \<Rightarrow> Inr (series_mean s))"

definition crop_suggestion :: "fval \<Rightarrow> fval \<Rightarrow> string" where
  "crop_suggestion p_temp p_co2 =
     (if gt p_temp 1.5 \<and> gt p_co2 400 then ''Wheat, Corn, or Soybeans''
      else if gt p_temp 1.0 \<and> le p_co2 400 then ''Rice, Oats, or Barley''
      else ''Potatoes, Tomatoes, or Lettuce'')"

definition crop_message :: "string \<Rightarrow> string" where
  "crop_message crops = ''It is recommended to yield crops like **'' @ crops @ ''**.''"

definition no_data_warning :: string where
  "no_data_warning =
     ''No data available for the selected country and year. Adjust filters or upload a different dataset.''"

definition part1_header :: string where
  "part1_header = ''Part 1: Predicted Temperature, CO2, and Crop Yield Suggestions''"

definition part1 :: "(fval list \<Rightarrow> fval) \<Rightarrow> dataframe \<Rightarrow> outcome" where
  "part1 series_mean filtered_df =
     seq (emit [Header part1_header])
       (if \<not> empty_frame filtered_df then
          (case predicted_temp series_mean filtered_df of
             Inl e \<Rightarrow> raise_error e
           | Inr p_temp \<Rightarrow>
               (case predicted_co2 series_mean filtered_df of
                  Inl e \<Rightarrow> raise_error e
                | Inr p_co2 \<Rightarrow>
                    emit [Write_predicted_temp p_temp, Write_predicted_co2 p_co2,
                          Subheader ''Suggested Crop to Yield'',
                          Write (crop_message (crop_suggestion p_temp p_co2))]))
        else emit [Warning no_data_warning])"

subsection \<open>Dual-axis plot of the whole data set (lines 84-133)\<close>

definition part2_header :: string where
  "part2_header = ''Part 2: Temperature and CO2 Levels Over Time (Entire Dataset)''"

definition part2 :: "dataframe \<Rightarrow> outcome" where
  "part2 df =
     seq (emit [Header part2_header])
       (if \<not> empty_frame df then
          (case getitem df ''year'' year of
             Inl e \<Rightarrow> raise_error e
           | Inr x1 \<Rightarrow>
              (case getitem df ''temperature_anomaly'' temperature_anomaly of
                 Inl e \<Rightarrow> raise_error e
               | Inr y1 \<Rightarrow>
                  (case getitem df ''year'' year of
                     Inl e \<Rightarrow> raise_error e
                   | Inr x2 \<Rightarrow>
                      (case getitem df ''average_co2'' average_co2 of
                         Inl e \<Rightarrow> raise_error e
                       | Inr y2 \<Rightarrow> emit [Plotly_chart (Dual_axis x1 y1 x2 y2)]))))
        else emit [Warning
          ''No data available to display the dual-axis plot. Please upload a dataset.''])"

subsection \<open>Map data selector (lines 136-168)\<close>

definition map_data :: "dataframe \<Rightarrow> int option \<Rightarrow> py_error + dataframe" where
  "map_data df sel_year =
     (if truthy_int sel_year then
        (case getitem df ''year'' year of
           Inl e \<Rightarrow> Inl e
         | Inr s \<Rightarrow> Inr (bool_index df (eq_mask s (the sel_year))))
      else Inr df)"

text \<open>
  The lambda of lines 142-144. A country name never equals \<^verbatim>\<open>None\<close>, so with no
  country selected every row is labelled \<^verbatim>\<open>Other Countries\<close>.
\<close>

definition highlight_label :: "string option \<Rightarrow> string \<Rightarrow> string" where
  "highlight_label sel_country x =
     (if Some x = sel_country then ''Selected Country'' else ''Other Countries'')"

definition highlight :: "dataframe \<Rightarrow> string option \<Rightarrow> py_error + string list" where
  "highlight md sel_country =
     (case getitem md ''country'' country of
        Inl e \<Rightarrow> Inl e
      | Inr s \<Rightarrow> Inr (map (highlight_label sel_country) s))"

text \<open>
  The new column is kept beside the rows it labels. With no year filter the script's
  \<^verbatim>\<open>map_data\<close> is the frame \<^verbatim>\<open>df\<close> itself, so the column is added to
  \<^verbatim>\<open>df\<close> too; Part 4 passes \<^verbatim>\<open>df\<close> to the plotting library and reads none
  of its cells. The second component of the figure records whether
  \<^verbatim>\<open>update_traces\<close> (lines 159-163) was called.
\<close>

definition part3_header :: string where
  "part3_header = ''Part 3: Map of Predicted Temperature and CO2 Levels''"

definition part3 :: "dataframe \<Rightarrow> string option \<Rightarrow> int option \<Rightarrow> outcome" where
  "part3 df sel_country sel_year =
     seq (emit [Header part3_header])
       (case map_data df sel_year of
          Inl e \<Rightarrow> raise_error e
        | Inr md \<Rightarrow>
            if \<not> empty_frame md then
              (case highlight md sel_country of
                 Inl e \<Rightarrow> raise_error e
               | Inr labels \<Rightarrow>
                   emit [Plotly_chart (Choropleth (zip (rows md) labels) (truthy_str sel_country))])
            else emit [Warning
              ''No data available for the selected year to display the map.''])"

subsection \<open>Chart spec builder (lines 171-192)\<close>

fun plot_type_name :: "plot_kind \<Rightarrow> string" where
  "plot_type_name Scatter_Plot = ''Scatter Plot''"
| "plot_type_name Line_Chart = ''Line Chart''"
| "plot_type_name Bar_Chart = ''Bar Chart''"
| "plot_type_name Pie_Chart = ''Pie Chart''"
| "plot_type_name Histogram = ''Histogram''"

text \<open>\<^verbatim>\<open>color if color else None\<close>\<close>

definition color_or_none :: "string option \<Rightarrow> string option" where
  "color_or_none c = (if truthy_str c then c else None)"

fun custom_plot :: "plot_kind \<Rightarrow> string \<Rightarrow> string \<Rightarrow> string option \<Rightarrow> string \<Rightarrow> chart_spec" where
  "custom_plot Scatter_Plot x y c pv =
     \<lparr>px = Px_scatter, x_arg = Some x, y_arg = Some y, color_arg = color_or_none c,
      names_arg = None, values_arg = None, title_arg = y @ '' vs '' @ x, nbins_arg = None\<rparr>"
| "custom_plot Line_Chart x y c pv =
     \<lparr>px = Px_line, x_arg = Some x, y_arg = Some y, color_arg = color_or_none c,
      names_arg = None, values_arg = None, title_arg = y @ '' over '' @ x, nbins_arg = None\<rparr>"
| "custom_plot Bar_Chart x y c pv =
     \<lparr>px = Px_bar, x_arg = Some x, y_arg = Some y, color_arg = color_or_none c,
      names_arg = None, values_arg = None, title_arg = y @ '' by '' @ x, nbins_arg = None\<rparr>"
| "custom_plot Pie_Chart x y c pv =
     \<lparr>px = Px_pie, x_arg = None, y_arg = None, color_arg = None,
      names_arg = Some x, values_arg = Some pv, title_arg = ''Distribution of '' @ pv,
      nbins_arg = None\<rparr>"
| "custom_plot Histogram x y c pv =
     \<lparr>px = Px_histogram, x_arg = Some x, y_arg = None, color_arg = color_or_none c,
      names_arg = None, values_arg = None, title_arg = ''Histogram of '' @ x,
      nbins_arg = Some 20\<rparr>"

definition part4 :: "selection \<Rightarrow> outcome" where
  "part4 sel =
     seq (emit [Sidebar_header ''Visualization Options'',
                Header (''Custom '' @ plot_type_name (plot_type sel))])
         (emit [Plotly_chart (Express
            (custom_plot (plot_type sel) (x_axis sel) (y_axis sel) (color sel) (pie_values sel)))])"

subsection \<open>The script\<close>

text \<open>
  Lines 48-192, for a frame whose column names are already normalised. Lines 49 and 52
  read the \<^verbatim>\<open>country\<close> and \<^verbatim>\<open>year\<close> columns to fill the two selectboxes; the
  values picked there are the \<open>selection\<close>.
\<close>

definition script :: "(fval list \<Rightarrow> fval) \<Rightarrow> dataframe \<Rightarrow> selection \<Rightarrow> outcome" where
  "script series_mean df sel =
     seq (emit [Sidebar_header ''Filters''])
       (case getitem df ''country'' country of
          Inl e \<Rightarrow> raise_error e
        | Inr unique_countries \<Rightarrow>
           (case getitem df ''year'' year of
              Inl e \<Rightarrow> raise_error e
            | Inr unique_years \<Rightarrow>
               (case apply_filters df (selected_country sel) (selected_year sel) of
                  Inl e \<Rightarrow> raise_error e
                | Inr filtered_df \<Rightarrow>
                    seq (part1 series_mean filtered_df)
                      (seq (part2 df)
                        (seq (part3 df (selected_country sel) (selected_year sel))
                          (part4 sel))))))"

text \<open>Lines 38-45 and 194-195: no file, or the file read and its header normalised.\<close>

definition main ::
  "(fval list \<Rightarrow> fval) \<Rightarrow> (string list \<times> row list) option \<Rightarrow> selection \<Rightarrow> outcome" where
  "main series_mean uploaded_file sel =
     (case uploaded_file of
        None \<Rightarrow> emit [Info ''Please upload a CSV file to proceed.'']
      | Some (header, body) \<Rightarrow>
          script series_mean \<lparr>columns = normalize_columns header, rows = body\<rparr> sel)"

text \<open>The options the two filter selectboxes offer (lines 50 and 53).\<close>

definition valid_selection :: "dataframe \<Rightarrow> string option \<Rightarrow> int option \<Rightarrow> bool" where
  "valid_selection df sel_country sel_year =
     ((case sel_country of None \<Rightarrow> True | Some c \<Rightarrow> c \<in> set (map country (rows df))) \<and>
      (case sel_year of None \<Rightarrow> True | Some y \<Rightarrow> y \<in> set (map year (rows df))))"

subsection \<open>Sample data\<close>

text \<open>A small upload used to run the definitions on concrete inputs.\<close>

definition india_2020 :: row where
  "india_2020 = \<lparr>country = ''India'', year = 2020,
                  temperature_anomaly = Val 2, average_co2 = Val 410\<rparr>"

definition brazil_2020 :: row where
  "brazil_2020 = \<lparr>country = ''Brazil'', year = 2020,
                   temperature_anomaly = Val 1, average_co2 = Val 390\<rparr>"

definition india_2021 :: row where
  "india_2021 = \<lparr>country = ''India'', year = 2021,
                  temperature_anomaly = Val 1.75, average_co2 = Val 414\<rparr>"

definition brazil_0 :: row where
  "brazil_0 = \<lparr>country = ''Brazil'', year = 0,
                temperature_anomaly = Val 0.5, average_co2 = Val 200\<rparr>"

definition chile_2020 :: row where
  "chile_2020 = \<lparr>country = ''Chile'', year = 2020,
                  temperature_anomaly = Val 1.5, average_co2 = Val 400\<rparr>"

definition demo_body :: "row list" where
  "demo_body = [india_2020, brazil_2020, india_2021, brazil_0, chile_2020]"

definition demo_header :: "string list" where
  "demo_header = [''Country'', '' Year '', ''Temperature Anomaly'', ''Average CO2'']"

definition demo_columns :: "string list" where
  "demo_columns = [''country'', ''year'', ''temperature_anomaly'', ''average_co2'']"

definition demo_df :: dataframe where
  "demo_df = \<lparr>columns = demo_columns, rows = demo_body\<rparr>"

definition demo_sel :: selection where
  "demo_sel = \<lparr>selected_country = Some ''India'', selected_year = Some 2020,
                plot_type = Pie_Chart, x_axis = ''country'', y_axis = ''year'',
                color = None, pie_values = ''average_co2''\<rparr>"

text \<open>
  A stand-in for the library's mean, used only to run the model on the sample rows: the
  mean, in exact arithmetic, of the values that are not \<open>NaN\<close>. The sample values and
  their sums are small binary fractions, on which float64 arithmetic does not round.
\<close>

fun finite_values :: "fval list \<Rightarrow> rat list" where
  "finite_values [] = []"
| "finite_values (Val q # vs) = q # finite_values vs"
| "finite_values (v # vs) = finite_values vs"

definition exact_mean :: "fval list \<Rightarrow> fval" where
  "exact_mean s =
     (let present = filter (\<lambda>v. v \<noteq> NaN) s in
      if present = [] then NaN
      else if PosInf \<in> set present \<and> NegInf \<in> set present then NaN
      else if PosInf \<in> set present then PosInf
      else if NegInf \<in> set present then NegInf
      else Val (sum_list (finite_values present) / of_nat (length present)))"

text \<open>A combination of two offered values that no row has.\<close>

definition no_match_sel :: selection where
  "no_match_sel = demo_sel\<lparr>selected_country := Some ''Brazil'', selected_year := Some 2021\<rparr>"





section \<open>Properties\<close>

subsection \<open>Column-name normalisation\<close>

lemma lower_char_idem: "lower_char (lower_char c) = lower_char c"
  by (simp add: lower_char_def)

lemma isspace_lower_char: "isspace (lower_char c) = isspace c"
  by (auto simp add: lower_char_def isspace_def)

lemma of_char_lower_char:
  "(of_char (lower_char c) :: nat) =
     (if 65 \<le> (of_char c :: nat) \<and> (of_char c :: nat) \<le> 90 then of_char c + 32 else of_char c)"
  by (simp add: lower_char_def)

lemma lower_char_not_space: "c \<noteq> CHR '' '' \<Longrightarrow> lower_char c \<noteq> CHR '' ''"
proof
  assume c: "c \<noteq> CHR '' ''" and l: "lower_char c = CHR '' ''"
  from l have "(of_char (lower_char c) :: nat) = of_char (CHR '' '')" by simp
  then have "(of_char c :: nat) = 32"
    by (simp add: of_char_lower_char split: if_splits)
  then have "(of_char c :: nat) = of_char (CHR '' '')" by simp
  then have "c = CHR '' ''" by (simp only: of_char_eq_iff)
  with c show False by simp
qed

lemma last_dropWhile: "dropWhile P xs \<noteq> [] \<Longrightarrow> last (dropWhile P xs) = last xs"
  by (induction xs) (auto split: if_splits)

lemma dropWhile_fixed: "xs = [] \<or> \<not> P (hd xs) \<Longrightarrow> dropWhile P xs = xs"
  by (cases xs) auto

lemma strip_fixed:
  assumes "s = [] \<or> (\<not> isspace (hd s) \<and> \<not> isspace (last s))"
  shows "strip s = s"
proof (cases "s = []")
  case True
  then show ?thesis by (simp add: strip_def)
next
  case False
  with assms have h: "\<not> isspace (hd s)" and l: "\<not> isspace (last s)" by simp_all
  have 1: "dropWhile isspace s = s" using h by (simp add: dropWhile_fixed)
  have "hd (rev s) = last s" using False by (simp add: hd_rev)
  then have 2: "dropWhile isspace (rev s) = rev s" using l by (simp add: dropWhile_fixed)
  show ?thesis by (simp add: strip_def 1 2)
qed

lemma strip_ends:
  "strip s = [] \<or> (\<not> isspace (hd (strip s)) \<and> \<not> isspace (last (strip s)))"
proof (cases "strip s = []")
  case True
  then show ?thesis by simp
next
  case False
  define t where "t = dropWhile isspace s"
  define u where "u = dropWhile isspace (rev t)"
  have su: "strip s = rev u" by (simp add: strip_def t_def u_def)
  with False have u: "u \<noteq> []" by simp
  then have t: "t \<noteq> []" by (auto simp add: u_def)
  have "\<not> isspace (hd u)" using u unfolding u_def by (rule hd_dropWhile)
  then have a: "\<not> isspace (last (strip s))" using u by (simp add: su last_rev)
  have "last u = last (rev t)" using u unfolding u_def by (rule last_dropWhile)
  then have "last u = hd t" using t by (simp add: last_rev)
  moreover have "\<not> isspace (hd t)" using t unfolding t_def by (rule hd_dropWhile)
  ultimately have b: "\<not> isspace (hd (strip s))" using u by (simp add: su hd_rev)
  from a b show ?thesis by simp
qed

lemma replace_space_ends:
  assumes "s = [] \<or> (\<not> isspace (hd s) \<and> \<not> isspace (last s))"
  shows "replace_space s = [] \<or> (\<not> isspace (hd (replace_space s)) \<and> \<not> isspace (last (replace_space s)))"
  using assms by (cases "s = []") (auto simp add: replace_space_def hd_map last_map isspace_def)

lemma replace_space_no_space: "CHR '' '' \<notin> set (replace_space s)"
  by (auto simp add: replace_space_def)

lemma replace_space_fixed: "CHR '' '' \<notin> set s \<Longrightarrow> replace_space s = s"
  by (induction s) (auto simp add: replace_space_def)

lemma lower_ends:
  assumes "s = [] \<or> (\<not> isspace (hd s) \<and> \<not> isspace (last s))"
  shows "lower s = [] \<or> (\<not> isspace (hd (lower s)) \<and> \<not> isspace (last (lower s)))"
  using assms by (cases "s = []") (auto simp add: lower_def hd_map last_map isspace_lower_char)

lemma lower_no_space:
  assumes "CHR '' '' \<notin> set s"
  shows "CHR '' '' \<notin> set (lower s)"
proof
  assume "CHR '' '' \<in> set (lower s)"
  then obtain c where c: "c \<in> set s" and l: "lower_char c = CHR '' ''"
    by (auto simp add: lower_def)
  from c assms have "c \<noteq> CHR '' ''" by auto
  then have "lower_char c \<noteq> CHR '' ''" by (rule lower_char_not_space)
  with l show False by simp
qed

lemma lower_idem: "lower (lower s) = lower s"
  by (simp add: lower_def lower_char_idem)

lemma normalize_name_idem: "normalize_name (normalize_name s) = normalize_name s"
proof -
  define n where "n = normalize_name s"
  have ends: "n = [] \<or> (\<not> isspace (hd n) \<and> \<not> isspace (last n))"
    unfolding n_def normalize_name_def
    by (intro lower_ends replace_space_ends strip_ends)
  have nosp: "CHR '' '' \<notin> set n"
    unfolding n_def normalize_name_def
    by (intro lower_no_space replace_space_no_space)
  have low: "lower n = n" by (simp add: n_def normalize_name_def lower_idem)
  have "normalize_name n = lower (replace_space (strip n))" by (simp add: normalize_name_def)
  also have "\<dots> = lower (replace_space n)" using ends by (simp add: strip_fixed)
  also have "\<dots> = lower n" using nosp by (simp add: replace_space_fixed)
  also have "\<dots> = n" by (rule low)
  finally show ?thesis by (simp add: n_def)
qed

text \<open>
  Claim C7. Normalising column names (strip, spaces to underscores, lowercase) is
  idempotent: normalising a list or a set of names that is already the result of
  normalisation gives back the same list or set.
\<close>

theorem normalize_columns_idempotent:
  "normalize_columns (normalize_columns names) = normalize_columns names
   \<and> normalize_name ` (normalize_name ` S) = normalize_name ` S"
proof -
  have "normalize_name \<circ> normalize_name = normalize_name"
    by (rule ext) (simp add: normalize_name_idem)
  then show ?thesis
    by (simp add: normalize_columns_def image_image normalize_name_idem)
qed

lemma normalize_demo_header: "normalize_columns demo_header = demo_columns"
  by code_simp

subsection \<open>Filter engine\<close>

lemmas demo_defs = demo_df_def demo_columns_def demo_body_def india_2020_def brazil_2020_def
  india_2021_def brazil_0_def chile_2020_def

text \<open>
  Boolean indexing with an equality mask keeps exactly the rows whose cell equals the
  value, in their order.
\<close>

lemma select_eq_mask:
  "map fst (filter snd (zip xs (eq_mask (map f xs) v))) = filter (\<lambda>r. f r = v) xs"
  by (induction xs) (simp_all add: eq_mask_def)

lemma bool_index_eq_mask:
  "bool_index df (eq_mask (map f (rows df)) v) = df\<lparr>rows := filter (\<lambda>r. f r = v) (rows df)\<rparr>"
  by (simp add: bool_index_def select_eq_mask)

lemma filter_country_rows:
  assumes "''country'' \<in> set (columns df)"
  shows "filter_country df c =
           Inr (df\<lparr>rows := filter (\<lambda>r. truthy_str c \<longrightarrow> Some (country r) = c) (rows df)\<rparr>)"
proof (cases "truthy_str c")
  case True
  then obtain s where c: "c = Some s" by (cases c) auto
  show ?thesis using assms True
    by (simp add: filter_country_def getitem_def bool_index_eq_mask c)
next
  case False
  then show ?thesis by (simp add: filter_country_def)
qed

lemma filter_year_rows:
  assumes "''year'' \<in> set (columns df)"
  shows "filter_year df y =
           Inr (df\<lparr>rows := filter (\<lambda>r. truthy_int y \<longrightarrow> Some (year r) = y) (rows df)\<rparr>)"
proof (cases "truthy_int y")
  case True
  then obtain n where y: "y = Some n" by (cases y) auto
  show ?thesis using assms True
    by (simp add: filter_year_def getitem_def bool_index_eq_mask y)
next
  case False
  then show ?thesis by (simp add: filter_year_def)
qed

lemma apply_filters_rows:
  assumes "''country'' \<in> set (columns df)" and "''year'' \<in> set (columns df)"
  shows "apply_filters df c y =
           Inr (df\<lparr>rows := filter (\<lambda>r. (truthy_str c \<longrightarrow> Some (country r) = c)
                                      \<and> (truthy_int y \<longrightarrow> Some (year r) = y)) (rows df)\<rparr>)"
proof -
  let ?d = "df\<lparr>rows := filter (\<lambda>r. truthy_str c \<longrightarrow> Some (country r) = c) (rows df)\<rparr>"
  have "''year'' \<in> set (columns ?d)" using assms(2) by simp
  then have "filter_year ?d y =
      Inr (?d\<lparr>rows := filter (\<lambda>r. truthy_int y \<longrightarrow> Some (year r) = y) (rows ?d)\<rparr>)"
    by (rule filter_year_rows)
  then show ?thesis
    by (simp add: apply_filters_def filter_country_rows[OF assms(1)] conj_commute)
qed

text \<open>
  What holds of the filter for every selection: the result keeps the columns, is a
  subsequence of the input rows (so contained in them, in their order, and no longer),
  and is the input itself when both filters are unset. For a selection other than the
  year \<open>0\<close> and the empty-string country, it consists of exactly the rows that equal the
  selected value in every set filter column.
\<close>

lemma apply_filters_subseq:
  assumes "''country'' \<in> set (columns df)" and "''year'' \<in> set (columns df)"
  shows "\<exists>filtered_df. apply_filters df c y = Inr filtered_df
           \<and> columns filtered_df = columns df
           \<and> subseq (rows filtered_df) (rows df)
           \<and> set (rows filtered_df) \<subseteq> set (rows df)
           \<and> length (rows filtered_df) \<le> length (rows df)
           \<and> (c = None \<and> y = None \<longrightarrow> filtered_df = df)
           \<and> (c \<noteq> Some [] \<and> y \<noteq> Some 0 \<longrightarrow>
                rows filtered_df =
                  filter (\<lambda>r. (c \<noteq> None \<longrightarrow> Some (country r) = c)
                            \<and> (y \<noteq> None \<longrightarrow> Some (year r) = y)) (rows df))"
proof -
  let ?keep = "\<lambda>r. (truthy_str c \<longrightarrow> Some (country r) = c) \<and> (truthy_int y \<longrightarrow> Some (year r) = y)"
  let ?f = "df\<lparr>rows := filter ?keep (rows df)\<rparr>"
  have "apply_filters df c y = Inr ?f" using assms by (rule apply_filters_rows)
  moreover have "columns ?f = columns df" by simp
  moreover have "subseq (rows ?f) (rows df)" by simp
  moreover have "set (rows ?f) \<subseteq> set (rows df)" by auto
  moreover have "length (rows ?f) \<le> length (rows df)" by simp
  moreover have "c = None \<and> y = None \<longrightarrow> ?f = df" by simp
  moreover have "c \<noteq> Some [] \<and> y \<noteq> Some 0 \<longrightarrow>
                rows ?f =
                  filter (\<lambda>r. (c \<noteq> None \<longrightarrow> Some (country r) = c)
                            \<and> (y \<noteq> None \<longrightarrow> Some (year r) = y)) (rows df)"
  proof
    assume a: "c \<noteq> Some [] \<and> y \<noteq> Some 0"
    then have "truthy_str c \<longleftrightarrow> c \<noteq> None" by (cases c) auto
    moreover from a have "truthy_int y \<longleftrightarrow> y \<noteq> None" by (cases y) auto
    ultimately show "rows ?f =
                  filter (\<lambda>r. (c \<noteq> None \<longrightarrow> Some (country r) = c)
                            \<and> (y \<noteq> None \<longrightarrow> Some (year r) = y)) (rows df)"
      by simp
  qed
  ultimately show ?thesis by blast
qed

text \<open>
  Claim C4. For every table and every valid filter selection (each of country and year
  unset or a value of its column), \<open>apply_filters\<close> is to return exactly the rows
  that equal the selected values in the set filter columns. The code departs from this
  at the year \<open>0\<close>: in the sample table \<open>0\<close> is a value of the \<open>year\<close> column, so
  the selectbox offers it, and the rows to return are the single row of year \<open>0\<close>; the
  guard of line 59 tests the selection's truth value, the filter is skipped, and all
  five rows come back.
\<close>

theorem year_zero_filter_returns_all_rows:
  "valid_selection demo_df None (Some 0)
   \<and> filter (\<lambda>r. year r = 0) (rows demo_df) = [brazil_0]
   \<and> apply_filters demo_df None (Some 0)
       = Inr \<lparr>columns = demo_columns,
              rows = [india_2020, brazil_2020, india_2021, brazil_0, chile_2020]\<rparr>"
  by (simp add: demo_defs valid_selection_def apply_filters_def filter_country_def
      filter_year_def)

subsection \<open>Map data selector\<close>

lemma map_data_rows:
  assumes "''year'' \<in> set (columns df)"
  shows "map_data df y =
           Inr (df\<lparr>rows := filter (\<lambda>r. truthy_int y \<longrightarrow> Some (year r) = y) (rows df)\<rparr>)"
proof (cases "truthy_int y")
  case True
  then obtain n where y: "y = Some n" by (cases y) auto
  show ?thesis using assms True
    by (simp add: map_data_def getitem_def bool_index_eq_mask y)
next
  case False
  then show ?thesis by (simp add: map_data_def)
qed

lemma zip_map_same: "zip xs (map f xs) = map (\<lambda>x. (x, f x)) xs"
  by (induction xs) simp_all

lemma highlight_labels:
  assumes "''country'' \<in> set (columns md)"
  shows "highlight md c = Inr (map (\<lambda>r. highlight_label c (country r)) (rows md))"
  using assms by (simp add: highlight_def getitem_def)

text \<open>
  The highlight column and the map: every row of the map data is kept and labelled,
  \<open>Selected Country\<close> exactly when its country equals the selected one, and the map is
  drawn from these labelled rows whenever there is one.
\<close>

lemma part3_labels:
  assumes "''country'' \<in> set (columns df)" and "map_data df y = Inr md"
    and "columns md = columns df"
  shows "highlight md c =
           Inr (map (\<lambda>r. if Some (country r) = c then ''Selected Country''
                         else ''Other Countries'') (rows md))
       \<and> part3 df c y =
           ([Header part3_header,
             if rows md = []
             then Warning ''No data available for the selected year to display the map.''
             else Plotly_chart (Choropleth
                    (map (\<lambda>r. (r, if Some (country r) = c then ''Selected Country''
                                   else ''Other Countries'')) (rows md))
                    (truthy_str c))], None)"
proof -
  let ?labels = "map (\<lambda>r. highlight_label c (country r)) (rows md)"
  have "''country'' \<in> set (columns md)" using assms(1,3) by simp
  then have hl: "highlight md c = Inr ?labels" by (rule highlight_labels)
  have lab: "?labels = map (\<lambda>r. if Some (country r) = c then ''Selected Country''
                                 else ''Other Countries'') (rows md)"
    by (simp add: highlight_label_def)
  have emp: "empty_frame md \<longleftrightarrow> rows md = []"
    using assms(1,3) by (auto simp add: empty_frame_def)
  have "part3 df c y =
           ([Header part3_header,
             if rows md = []
             then Warning ''No data available for the selected year to display the map.''
             else Plotly_chart (Choropleth (zip (rows md) ?labels) (truthy_str c))], None)"
    unfolding part3_def assms(2) sum.case hl emp
    by (simp add: seq_def emit_def)
  then show ?thesis using hl by (simp add: lab zip_map_same)
qed

text \<open>
  Claim C6. For every table and year selection the map data selector is to return the
  rows whose year equals the selection when a year is set, and to label exactly the rows
  of the selected country. The labelling is as claimed; the selection departs from the
  claim at the year \<open>0\<close>: the sample table has one row of year \<open>0\<close>, which is what the
  selector is to return, but the guard of line 139 tests the selection's truth value, so
  the selector returns the whole table and the map is drawn from all five rows.
\<close>

theorem year_zero_map_shows_all_rows:
  "valid_selection demo_df (Some ''Brazil'') (Some 0)
   \<and> filter (\<lambda>r. year r = 0) (rows demo_df) = [brazil_0]
   \<and> map_data demo_df (Some 0)
       = Inr \<lparr>columns = demo_columns,
              rows = [india_2020, brazil_2020, india_2021, brazil_0, chile_2020]\<rparr>
   \<and> part3 demo_df (Some ''Brazil'') (Some 0) =
       ([Header part3_header,
         Plotly_chart (Choropleth [(india_2020, ''Other Countries''),
                                   (brazil_2020, ''Selected Country''),
                                   (india_2021, ''Other Countries''),
                                   (brazil_0, ''Selected Country''),
                                   (chile_2020, ''Other Countries'')] True)], None)"
proof -
  have md: "map_data demo_df (Some 0) = Inr demo_df"
    by (simp add: map_data_def)
  have "part3 demo_df (Some ''Brazil'') (Some 0) =
       ([Header part3_header,
         Plotly_chart (Choropleth [(india_2020, ''Other Countries''),
                                   (brazil_2020, ''Selected Country''),
                                   (india_2021, ''Other Countries''),
                                   (brazil_0, ''Selected Country''),
                                   (chile_2020, ''Other Countries'')] True)], None)"
    using part3_labels [of demo_df "Some 0" demo_df "Some ''Brazil''"] md
    by (simp add: demo_defs)
  then show ?thesis
    using md by (simp add: demo_defs valid_selection_def)
qed

subsection \<open>Falsy selections\<close>

lemma filter_year_zero: "filter_year d (Some 0) = filter_year d None"
  by (simp add: filter_year_def)

lemma apply_filters_year_zero: "apply_filters df c (Some 0) = apply_filters df c None"
  by (simp add: apply_filters_def filter_year_zero cong: sum.case_cong)

lemma map_data_year_zero: "map_data df (Some 0) = map_data df None"
  by (simp add: map_data_def)

text \<open>
  Claim C9. A selection that is falsy (the empty-string country, the year \<open>0\<close>) is
  treated exactly like an unset one, whether or not the table holds that value: the
  filtered view equals the one for the unset filter, with both falsy no constraint is
  applied at all, the map's year selection equals the unset one, and a whole run with
  year \<open>0\<close> equals the run with no year.
\<close>

theorem falsy_selection_is_unset:
  "apply_filters df (Some []) y = apply_filters df None y
   \<and> apply_filters df c (Some 0) = apply_filters df c None
   \<and> apply_filters df (Some []) (Some 0) = Inr df
   \<and> map_data df (Some 0) = map_data df None
   \<and> map_data df (Some 0) = Inr df
   \<and> script series_mean df (sel\<lparr>selected_year := Some 0\<rparr>) = script series_mean df (sel\<lparr>selected_year := None\<rparr>)"
proof -
  have a: "apply_filters df (Some []) y = apply_filters df None y"
    by (simp add: apply_filters_def filter_country_def)
  have b: "apply_filters df (Some []) (Some 0) = Inr df"
    by (simp add: apply_filters_def filter_country_def filter_year_def)
  have c: "map_data df (Some 0) = Inr df"
    by (simp add: map_data_def)
  have p3: "part3 df k (Some 0) = part3 df k None" for k
    by (simp add: part3_def map_data_year_zero)
  have p4: "part4 (sel\<lparr>selected_year := Some 0\<rparr>) = part4 (sel\<lparr>selected_year := None\<rparr>)"
    by (simp add: part4_def)
  have d: "script series_mean df (sel\<lparr>selected_year := Some 0\<rparr>) = script series_mean df (sel\<lparr>selected_year := None\<rparr>)"
    by (simp add: script_def apply_filters_year_zero p3 p4 cong: sum.case_cong)
  from a b c d apply_filters_year_zero map_data_year_zero show ?thesis by simp
qed


subsection \<open>Recommendation engine\<close>

text \<open>
  The series handed to the library's mean is the value column of exactly the rows of
  the filtered frame, in their order. What the library returns for it (claims C2 and
  C10: the quotient of sum and count, the treatment of blank cells) is float64
  arithmetic of pandas and is not stated here.
\<close>

lemma predicted_temp_mean:
  "''temperature_anomaly'' \<in> set (columns d) \<Longrightarrow>
     predicted_temp series_mean d = Inr (series_mean (map temperature_anomaly (rows d)))"
  by (simp add: predicted_temp_def getitem_def)

lemma predicted_co2_mean:
  "''average_co2'' \<in> set (columns d) \<Longrightarrow>
     predicted_co2 series_mean d = Inr (series_mean (map average_co2 (rows d)))"
  by (simp add: predicted_co2_def getitem_def)



lemma part1_empty:
  "empty_frame d \<Longrightarrow> part1 series_mean d = ([Header part1_header, Warning no_data_warning], None)"
  by (simp add: part1_def seq_def emit_def)

lemma part1_values:
  assumes "\<not> empty_frame d" and "predicted_temp series_mean d = Inr t" and "predicted_co2 series_mean d = Inr c"
  shows "part1 series_mean d =
           ([Header part1_header, Write_predicted_temp t, Write_predicted_co2 c,
             Subheader ''Suggested Crop to Yield'',
             Write (crop_message (crop_suggestion t c))], None)"
  using assms by (simp add: part1_def seq_def emit_def)



text \<open>
  Claim C1, as amended. For every non-empty filtered table with both value columns,
  Part 1 writes the two means and the crop category chosen by the rules in this order,
  first match winning: mean temperature above 1.5 and mean CO2 above 400 gives Wheat,
  Corn, or Soybeans; else mean temperature above 1.0 and mean CO2 at most 400 gives
  Rice, Oats, or Barley; otherwise Potatoes, Tomatoes, or Lettuce. In particular
  (1.5, 400) gives the Rice category, since 1.5 exceeds 1.0 and 400 is at most 400;
  (1.51, 401) gives Wheat, (1.2, 300) gives Rice, (0.5, 200) gives Potatoes, and every
  temperature above 1.5 with CO2 at most 400 gives Rice.
\<close>

theorem crop_rules_first_match:
  assumes "\<not> empty_frame filtered_df"
    and "''temperature_anomaly'' \<in> set (columns filtered_df)"
    and "''average_co2'' \<in> set (columns filtered_df)"
  shows "(\<exists>t c. predicted_temp series_mean filtered_df = Inr t \<and> predicted_co2 series_mean filtered_df = Inr c
            \<and> part1 series_mean filtered_df =
                ([Header part1_header, Write_predicted_temp t, Write_predicted_co2 c,
                  Subheader ''Suggested Crop to Yield'',
                  Write (crop_message
                    (if gt t 1.5 \<and> gt c 400 then ''Wheat, Corn, or Soybeans''
                     else if gt t 1.0 \<and> le c 400 then ''Rice, Oats, or Barley''
                     else ''Potatoes, Tomatoes, or Lettuce''))], None))
         \<and> crop_suggestion (Val 1.5) (Val 400) = ''Rice, Oats, or Barley''
         \<and> crop_suggestion (Val 1.51) (Val 401) = ''Wheat, Corn, or Soybeans''
         \<and> crop_suggestion (Val 1.2) (Val 300) = ''Rice, Oats, or Barley''
         \<and> crop_suggestion (Val 0.5) (Val 200) = ''Potatoes, Tomatoes, or Lettuce''
         \<and> (1.5 < a \<and> b \<le> 400 \<longrightarrow> crop_suggestion (Val a) (Val b) = ''Rice, Oats, or Barley'')"
proof -
  let ?t = "series_mean (map temperature_anomaly (rows filtered_df))"
  let ?c = "series_mean (map average_co2 (rows filtered_df))"
  have t: "predicted_temp series_mean filtered_df = Inr ?t" using assms(2) by (rule predicted_temp_mean)
  have c: "predicted_co2 series_mean filtered_df = Inr ?c" using assms(3) by (rule predicted_co2_mean)
  have "part1 series_mean filtered_df =
           ([Header part1_header, Write_predicted_temp ?t, Write_predicted_co2 ?c,
             Subheader ''Suggested Crop to Yield'',
             Write (crop_message (crop_suggestion ?t ?c))], None)"
    using assms(1) t c by (rule part1_values)
  then have run: "\<exists>t c. predicted_temp series_mean filtered_df = Inr t \<and> predicted_co2 series_mean filtered_df = Inr c
            \<and> part1 series_mean filtered_df =
                ([Header part1_header, Write_predicted_temp t, Write_predicted_co2 c,
                  Subheader ''Suggested Crop to Yield'',
                  Write (crop_message
                    (if gt t 1.5 \<and> gt c 400 then ''Wheat, Corn, or Soybeans''
                     else if gt t 1.0 \<and> le c 400 then ''Rice, Oats, or Barley''
                     else ''Potatoes, Tomatoes, or Lettuce''))], None)"
    using t c unfolding crop_suggestion_def by blast
  have p1: "crop_suggestion (Val 1.5) (Val 400) = ''Rice, Oats, or Barley''"
    by (simp add: crop_suggestion_def)
  have p2: "crop_suggestion (Val 1.51) (Val 401) = ''Wheat, Corn, or Soybeans''"
    by (simp add: crop_suggestion_def)
  have p3: "crop_suggestion (Val 1.2) (Val 300) = ''Rice, Oats, or Barley''"
    by (simp add: crop_suggestion_def)
  have p4: "crop_suggestion (Val 0.5) (Val 200) = ''Potatoes, Tomatoes, or Lettuce''"
    by (simp add: crop_suggestion_def)
  have p5: "1.5 < a \<and> b \<le> 400 \<longrightarrow> crop_suggestion (Val a) (Val b) = ''Rice, Oats, or Barley''"
    by (simp add: crop_suggestion_def)
  from run p1 p2 p3 p4 p5 show ?thesis by blast
qed

lemma india_filtered:
  "apply_filters demo_df (Some ''India'') None
     = Inr \<lparr>columns = demo_columns, rows = [india_2020, india_2021]\<rparr>"
  using apply_filters_rows [of demo_df "Some ''India''" None]
  by (simp add: demo_defs)

theorem crop_rules_first_match_witness:
  "apply_filters demo_df (Some ''India'') None
     = Inr \<lparr>columns = demo_columns, rows = [india_2020, india_2021]\<rparr>
   \<and> \<not> empty_frame \<lparr>columns = demo_columns, rows = [india_2020, india_2021]\<rparr>
   \<and> ''temperature_anomaly'' \<in> set demo_columns \<and> ''average_co2'' \<in> set demo_columns
   \<and> part1 exact_mean \<lparr>columns = demo_columns, rows = [india_2020, india_2021]\<rparr> =
       ([Header part1_header, Write_predicted_temp (Val 1.875), Write_predicted_co2 (Val 412),
         Subheader ''Suggested Crop to Yield'',
         Write (crop_message ''Wheat, Corn, or Soybeans'')], None)"
  using crop_rules_first_match
    [where filtered_df = "\<lparr>columns = demo_columns, rows = [india_2020, india_2021]\<rparr>"
       and series_mean = exact_mean and a = 2 and b = 300]
    india_filtered
  by (auto simp add: demo_defs empty_frame_def predicted_temp_def predicted_co2_def
      getitem_def exact_mean_def)

lemma year_2020_filtered:
  "apply_filters demo_df None (Some 2020)
     = Inr \<lparr>columns = demo_columns, rows = [india_2020, brazil_2020, chile_2020]\<rparr>"
  using apply_filters_rows [of demo_df None "Some 2020"]
  by (simp add: demo_defs)

text \<open>
  The claim as first stated puts (1.5, 400) in the Potatoes category. The rows of 2020
  hold the temperatures 2, 1 and 1.5 and the CO2 values 410, 390 and 400, whose means
  are exactly 1.5 and 400, and the script recommends Rice, Oats, or Barley for them.
\<close>

theorem crop_boundary_counterexample:
  "apply_filters demo_df None (Some 2020)
     = Inr \<lparr>columns = demo_columns, rows = [india_2020, brazil_2020, chile_2020]\<rparr>
   \<and> part1 exact_mean \<lparr>columns = demo_columns, rows = [india_2020, brazil_2020, chile_2020]\<rparr> =
       ([Header part1_header, Write_predicted_temp (Val 1.5), Write_predicted_co2 (Val 400),
         Subheader ''Suggested Crop to Yield'',
         Write (crop_message ''Rice, Oats, or Barley'')], None)
   \<and> crop_suggestion (Val 1.5) (Val 400) \<noteq> ''Potatoes, Tomatoes, or Lettuce''"
proof -
  have "part1 exact_mean \<lparr>columns = demo_columns, rows = [india_2020, brazil_2020, chile_2020]\<rparr> =
       ([Header part1_header, Write_predicted_temp (Val 1.5), Write_predicted_co2 (Val 400),
         Subheader ''Suggested Crop to Yield'',
         Write (crop_message ''Rice, Oats, or Barley'')], None)"
    by (simp add: demo_defs part1_def empty_frame_def predicted_temp_def predicted_co2_def
        getitem_def exact_mean_def crop_suggestion_def seq_def emit_def)
  moreover have "crop_suggestion (Val 1.5) (Val 400) \<noteq> ''Potatoes, Tomatoes, or Lettuce''"
    by (simp add: crop_suggestion_def)
  ultimately show ?thesis using year_2020_filtered by simp
qed


subsection \<open>Empty filtered table\<close>

lemma script_parts:
  assumes "''country'' \<in> set (columns df)" and "''year'' \<in> set (columns df)"
    and "apply_filters df (selected_country sel) (selected_year sel) = Inr filtered_df"
  shows "script series_mean df sel =
           seq (emit [Sidebar_header ''Filters''])
             (seq (part1 series_mean filtered_df)
               (seq (part2 df)
                 (seq (part3 df (selected_country sel) (selected_year sel)) (part4 sel))))"
  using assms by (simp add: script_def getitem_def)

text \<open>
  Claim C3. Whenever the filter selection produces an empty filtered table, Part 1
  consists of its header and the no-data warning only: no mean is computed (no column
  is read, no prediction is written, no exception is raised, and the outcome is the same
  whatever function stands for the library's mean), and the run's first three page
  elements are the sidebar header, the Part 1 header and that warning.
\<close>

theorem empty_filter_no_data:
  assumes "''country'' \<in> set (columns df)" and "''year'' \<in> set (columns df)"
    and "apply_filters df (selected_country sel) (selected_year sel) = Inr filtered_df"
    and "empty_frame filtered_df"
  shows "part1 series_mean filtered_df = ([Header part1_header, Warning no_data_warning], None)
       \<and> take 3 (fst (script series_mean df sel)) =
           [Sidebar_header ''Filters'', Header part1_header, Warning no_data_warning]"
proof -
  have p1: "part1 series_mean filtered_df = ([Header part1_header, Warning no_data_warning], None)"
    using assms(4) by (rule part1_empty)
  have "script series_mean df sel =
           seq (emit [Sidebar_header ''Filters''])
             (seq (part1 series_mean filtered_df)
               (seq (part2 df)
                 (seq (part3 df (selected_country sel) (selected_year sel)) (part4 sel))))"
    using assms(1-3) by (rule script_parts)
  then have "take 3 (fst (script series_mean df sel)) =
           [Sidebar_header ''Filters'', Header part1_header, Warning no_data_warning]"
    by (simp add: p1 seq_def emit_def)
  with p1 show ?thesis by simp
qed

lemma brazil_2021_filtered:
  "apply_filters demo_df (Some ''Brazil'') (Some 2021) = Inr \<lparr>columns = demo_columns, rows = []\<rparr>"
  using apply_filters_rows [of demo_df "Some ''Brazil''" "Some 2021"]
  by (simp add: demo_defs)

theorem empty_filter_no_data_witness:
  "''country'' \<in> set (columns demo_df) \<and> ''year'' \<in> set (columns demo_df)
   \<and> apply_filters demo_df (selected_country (no_match_sel))
         (selected_year (no_match_sel))
       = Inr \<lparr>columns = demo_columns, rows = []\<rparr>
   \<and> empty_frame \<lparr>columns = demo_columns, rows = []\<rparr>
   \<and> part1 exact_mean \<lparr>columns = demo_columns, rows = []\<rparr>
       = ([Header part1_header, Warning no_data_warning], None)
   \<and> take 3 (fst (script exact_mean demo_df (no_match_sel))) =
           [Sidebar_header ''Filters'', Header part1_header, Warning no_data_warning]"
  using empty_filter_no_data
      [where df = demo_df and sel = no_match_sel and series_mean = exact_mean
         and filtered_df = "\<lparr>columns = demo_columns, rows = []\<rparr>"]
    brazil_2021_filtered
  by (simp add: empty_frame_def demo_df_def demo_columns_def no_match_sel_def demo_sel_def)

subsection \<open>Chart spec builder\<close>

text \<open>
  Claim C8. For a pie chart the chart specification does not depend on the y-axis
  selection (nor on the colour): it passes the x selection as names and the separately
  selected field as values. For a histogram the specification does not depend on the
  y-axis selection either, and the colour is optional: none selected gives none, a
  selected column is passed on.
\<close>

theorem pie_and_histogram_ignore_y:
  "custom_plot Pie_Chart x y c pv = custom_plot Pie_Chart x y' c' pv
   \<and> y_arg (custom_plot Pie_Chart x y c pv) = None
   \<and> names_arg (custom_plot Pie_Chart x y c pv) = Some x
   \<and> values_arg (custom_plot Pie_Chart x y c pv) = Some pv
   \<and> custom_plot Histogram x y c pv = custom_plot Histogram x y' c pv'
   \<and> y_arg (custom_plot Histogram x y c pv) = None
   \<and> x_arg (custom_plot Histogram x y c pv) = Some x
   \<and> color_arg (custom_plot Histogram x y None pv) = None
   \<and> color_arg (custom_plot Histogram x y (Some (k # ks)) pv) = Some (k # ks)
   \<and> part4 (sel\<lparr>plot_type := Pie_Chart, y_axis := y'\<rparr>) = part4 (sel\<lparr>plot_type := Pie_Chart\<rparr>)
   \<and> part4 (sel\<lparr>plot_type := Histogram, y_axis := y'\<rparr>) = part4 (sel\<lparr>plot_type := Histogram\<rparr>)"
  by (simp add: part4_def color_or_none_def)


subsection \<open>Missing columns\<close>














subsection \<open>A complete run\<close>

text \<open>
  The sample upload with India and 2020 selected and a pie chart requested: the page
  elements of all four parts, in order, and no exception.
\<close>

lemma demo_run:
  "main exact_mean (Some (demo_header, demo_body)) demo_sel =
     ([Sidebar_header ''Filters'',
       Header part1_header,
       Write_predicted_temp (Val 2), Write_predicted_co2 (Val 410),
       Subheader ''Suggested Crop to Yield'',
       Write ''It is recommended to yield crops like **Wheat, Corn, or Soybeans**.'',
       Header part2_header,
       Plotly_chart (Dual_axis [2020, 2020, 2021, 0, 2020] [Val 2, Val 1, Val 1.75, Val 0.5, Val 1.5]
                               [2020, 2020, 2021, 0, 2020] [Val 410, Val 390, Val 414, Val 200, Val 400]),
       Header part3_header,
       Plotly_chart (Choropleth [(india_2020, ''Selected Country''),
                                 (brazil_2020, ''Other Countries''),
                                 (chile_2020, ''Other Countries'')] True),
       Sidebar_header ''Visualization Options'',
       Header ''Custom Pie Chart'',
       Plotly_chart (Express \<lparr>px = Px_pie, x_arg = None, y_arg = None, color_arg = None,
          names_arg = Some ''country'', values_arg = Some ''average_co2'',
          title_arg = ''Distribution of average_co2'', nbins_arg = None\<rparr>)], None)"
proof -
  have f: "apply_filters demo_df (Some ''India'') (Some 2020)
             = Inr \<lparr>columns = demo_columns, rows = [india_2020]\<rparr>"
    using apply_filters_rows [of demo_df "Some ''India''" "Some 2020"]
    by (simp add: demo_defs)
  have p1: "part1 exact_mean \<lparr>columns = demo_columns, rows = [india_2020]\<rparr> =
     ([Header part1_header,
       Write_predicted_temp (Val 2), Write_predicted_co2 (Val 410),
       Subheader ''Suggested Crop to Yield'',
       Write ''It is recommended to yield crops like **Wheat, Corn, or Soybeans**.''], None)"
    by (simp add: demo_defs part1_def empty_frame_def predicted_temp_def predicted_co2_def
        getitem_def exact_mean_def crop_suggestion_def crop_message_def seq_def emit_def)
  have p2: "part2 demo_df =
     ([Header part2_header,
       Plotly_chart (Dual_axis [2020, 2020, 2021, 0, 2020] [Val 2, Val 1, Val 1.75, Val 0.5, Val 1.5]
                               [2020, 2020, 2021, 0, 2020] [Val 410, Val 390, Val 414, Val 200, Val 400])],
      None)"
    by (simp add: demo_defs part2_def empty_frame_def getitem_def seq_def emit_def)
  have p3: "part3 demo_df (Some ''India'') (Some 2020) =
     ([Header part3_header,
       Plotly_chart (Choropleth [(india_2020, ''Selected Country''),
                                 (brazil_2020, ''Other Countries''),
                                 (chile_2020, ''Other Countries'')] True)], None)"
    by (simp add: demo_defs part3_def map_data_def highlight_def highlight_label_def
        bool_index_def eq_mask_def empty_frame_def getitem_def seq_def emit_def)
  have p4: "part4 demo_sel =
     ([Sidebar_header ''Visualization Options'',
       Header ''Custom Pie Chart'',
       Plotly_chart (Express \<lparr>px = Px_pie, x_arg = None, y_arg = None, color_arg = None,
          names_arg = Some ''country'', values_arg = Some ''average_co2'',
          title_arg = ''Distribution of average_co2'', nbins_arg = None\<rparr>)], None)"
    by (simp add: part4_def demo_sel_def seq_def emit_def)
  have s: "script exact_mean demo_df demo_sel =
           seq (emit [Sidebar_header ''Filters''])
             (seq (part1 exact_mean \<lparr>columns = demo_columns, rows = [india_2020]\<rparr>)
               (seq (part2 demo_df)
                 (seq (part3 demo_df (selected_country demo_sel) (selected_year demo_sel))
                   (part4 demo_sel))))"
    using f by (intro script_parts) (simp_all add: demo_df_def demo_columns_def demo_sel_def)
  have "main exact_mean (Some (demo_header, demo_body)) demo_sel = script exact_mean demo_df demo_sel"
    by (simp add: main_def normalize_demo_header demo_df_def)
  also have "\<dots> = seq (emit [Sidebar_header ''Filters''])
             (seq (part1 exact_mean \<lparr>columns = demo_columns, rows = [india_2020]\<rparr>)
               (seq (part2 demo_df)
                 (seq (part3 demo_df (Some ''India'') (Some 2020)) (part4 demo_sel))))"
  proof -
    have "selected_country demo_sel = Some ''India''" and "selected_year demo_sel = Some 2020"
      by (simp_all add: demo_sel_def)
    then show ?thesis by (simp only: s)
  qed
  finally show ?thesis
    by (simp add: p1 p2 p3 p4 seq_def emit_def)
qed

end
